theory Spec2Isabelle
  imports Main
begin

section \<open>To-Do List API: data model\<close>

text \<open>
  A shallow embedding of \<^verbatim>\<open>BackendAPIServer/src/api\<close>: the route handlers of
  \<^verbatim>\<open>endpoints.py\<close>, the token and password helpers of \<^verbatim>\<open>security.py\<close>, the
  identity dependency of \<^verbatim>\<open>dependencies.py\<close> and the tables of
  \<^verbatim>\<open>database_models.py\<close>.

  Conventions.
  \<^item> A \<^verbatim>\<open>datetime\<close> is its POSIX timestamp in whole seconds (the form in which the
    JWT library writes and compares the \<^verbatim>\<open>exp\<close> claim). Every function that reads a
    clock (\<^verbatim>\<open>datetime.utcnow()\<close>, SQL \<^verbatim>\<open>now()\<close>) takes the reading as its argument
    \<open>now\<close>.
  \<^item> A raised exception is the \<open>Inl\<close> of a sum. An \<^verbatim>\<open>HTTPException\<close> carries its status
    code, detail and headers. The exceptions of the libraries that no handler catches
    (they reach the client as a 500) are constructors of their own: the ORM's
    \<^verbatim>\<open>MultipleResultsFound\<close>, \<^verbatim>\<open>IntegrityError\<close> (a constraint the store enforces) and
    \<^verbatim>\<open>DBAPIError\<close> (an argument the database driver cannot encode for its column), and
    the password library's \<^verbatim>\<open>PasswordValueError\<close>.
  \<^item> A handler that writes returns the store next to its result, also when it raises.
  \<^item> Record fields keep the source's attribute names behind a prefix naming the class
    (\<open>user_\<close>, \<open>task_\<close>, \<open>ur_\<close> for \<^verbatim>\<open>UserRead\<close>, \<open>tr_\<close> for \<^verbatim>\<open>TaskRead\<close>, \<open>reg_\<close> for
    \<^verbatim>\<open>UserRegistration\<close>, \<open>login_\<close> for \<^verbatim>\<open>UserLogin\<close>, \<open>tc_\<close> for \<^verbatim>\<open>TaskCreate\<close>,
    \<open>tu_\<close> for \<^verbatim>\<open>TaskUpdate\<close>), since the classes share attribute names.
\<close>

type_synonym datetime = int

datatype error =
    HTTPException (status_code: nat) (detail: string) (headers: "(string \<times> string) list")
  | MultipleResultsFound
  | IntegrityError
  | DBAPIError
  | PasswordValueError

text \<open>
  A \<^verbatim>\<open>datetime\<close> that a request body supplies is naive or carries a time zone (its UTC
  offset in seconds); the first component is the wall-clock reading.
\<close>

datatype py_datetime = Naive datetime | Aware datetime int

fun tz_aware :: "py_datetime option \<Rightarrow> bool" where
  "tz_aware (Some (Aware t off)) = True"
| "tz_aware (Some (Naive t)) = False"
| "tz_aware None = False"

text \<open>The values of an \<^verbatim>\<open>Integer\<close> column and of a query argument compared with one.\<close>

definition in_int32 :: "int \<Rightarrow> bool" where
  "in_int32 i \<longleftrightarrow> - 2147483648 \<le> i \<and> i \<le> 2147483647"

subsection \<open>\<^verbatim>\<open>database_models.py\<close>\<close>

text \<open>
  A bcrypt hash string carries its salt and the digest; \<open>hashed\<close> keeps the two parts
  apart.
\<close>

type_synonym hashed = "string \<times> string"

record User =
  user_id :: int
  user_username :: string
  user_email :: string
  user_hashed_password :: hashed
  user_created_at :: datetime

record Task =
  task_id :: int
  task_title :: string
  task_description :: "string option"
  task_completed :: bool
  task_due_date :: "py_datetime option"
  task_owner_id :: int
  task_created_at :: datetime
  task_updated_at :: datetime

text \<open>
  The store: the two tables in insertion order and the last value each primary-key
  sequence has handed out.
\<close>

record db =
  users :: "User list"
  tasks :: "Task list"
  users_id_seq :: int
  tasks_id_seq :: int

subsection \<open>\<^verbatim>\<open>models.py\<close>\<close>

record UserRegistration =
  reg_username :: string
  reg_email :: string
  reg_password :: string

record UserLogin =
  login_username :: string
  login_password :: string

record UserRead =
  ur_id :: int
  ur_username :: string
  ur_email :: string
  ur_created_at :: datetime

record TaskCreate =
  tc_title :: string
  tc_description :: "string option"
  tc_due_date :: "py_datetime option"

text \<open>
  \<^verbatim>\<open>TaskUpdate\<close>: every field is optional and \<^verbatim>\<open>model_dump(exclude_unset=True)\<close> keeps
  the fields the request body named. \<open>None\<close> is a field the body left out,
  \<open>Some None\<close> a field the body set to \<^verbatim>\<open>null\<close>, \<open>Some (Some v)\<close> a value.
\<close>

record TaskUpdate =
  tu_title :: "string option option"
  tu_description :: "string option option"
  tu_completed :: "bool option option"
  tu_due_date :: "py_datetime option option"

record TaskRead =
  tr_id :: int
  tr_title :: string
  tr_description :: "string option"
  tr_completed :: bool
  tr_due_date :: "py_datetime option"
  tr_owner_id :: int
  tr_created_at :: datetime
  tr_updated_at :: datetime

section \<open>\<^verbatim>\<open>security.py\<close>\<close>

text \<open>
  The payload of a token, as far as the code reads or writes it: the \<^verbatim>\<open>sub\<close> and the
  \<^verbatim>\<open>exp\<close> entry of the dictionary, each present or absent.
\<close>

record claims =
  claim_sub :: "string option"
  claim_exp :: "datetime option"

text \<open>
  A token string either is a signed JWT (its payload and its signature) or it is one
  of the strings that \<^verbatim>\<open>jwt.decode\<close> refuses whatever the key and the clock: one that does
  not parse, or one with a registered claim of the wrong type.
\<close>

datatype 'sig token = Malformed string | JWS claims 'sig

text \<open>
  The module's globals and the two library primitives behind them: the signing secret
  read from the environment, the HS256 signature of a payload under a key, and the
  bcrypt digest of a password under a salt. They are parameters: nothing is assumed
  about them. The password library refuses a password that holds a NUL byte, when it
  hashes and when it verifies, with \<^verbatim>\<open>PasswordValueError\<close>.
\<close>

record 'sig crypto =
  SECRET_KEY :: string
  HS256 :: "string \<Rightarrow> claims \<Rightarrow> 'sig"
  bcrypt :: "string \<Rightarrow> string \<Rightarrow> string"

definition ACCESS_TOKEN_EXPIRE_MINUTES :: int where
  "ACCESS_TOKEN_EXPIRE_MINUTES = 60 * 24"

definition timedelta_minutes :: "int \<Rightarrow> int" where
  "timedelta_minutes m = 60 * m"

definition verify_password :: "'sig crypto \<Rightarrow> string \<Rightarrow> hashed \<Rightarrow> error + bool" where
  "verify_password cr plain_password hashed_password =
     (if CHR 0x00 \<in> set plain_password then Inl PasswordValueError
      else Inr (bcrypt cr (fst hashed_password) plain_password = snd hashed_password))"

text \<open>The salt is the library's random choice; it is an argument here.\<close>

definition get_password_hash :: "'sig crypto \<Rightarrow> string \<Rightarrow> string \<Rightarrow> error + hashed" where
  "get_password_hash cr salt password =
     (if CHR 0x00 \<in> set password then Inl PasswordValueError
      else Inr (salt, bcrypt cr salt password))"

datatype jwt_error = JWTError | ExpiredSignatureError

definition jwt_encode :: "'sig crypto \<Rightarrow> claims \<Rightarrow> 'sig token" where
  "jwt_encode cr to_encode = JWS to_encode (HS256 cr (SECRET_KEY cr) to_encode)"

text \<open>
  \<^verbatim>\<open>jwt.decode\<close>: the token must parse, its signature must be the one of its payload
  under the key, and an \<^verbatim>\<open>exp\<close> claim, when present, must not lie before the clock.
\<close>

definition jwt_decode :: "'sig crypto \<Rightarrow> 'sig token \<Rightarrow> datetime \<Rightarrow> jwt_error + claims" where
  "jwt_decode cr tok now =
     (case tok of
        Malformed s \<Rightarrow> Inl JWTError
      | JWS payload sg \<Rightarrow>
          if sg \<noteq> HS256 cr (SECRET_KEY cr) payload then Inl JWTError
          else (case claim_exp payload of
                  None \<Rightarrow> Inr payload
                | Some e \<Rightarrow> if e < now then Inl ExpiredSignatureError else Inr payload))"

definition create_access_token ::
    "'sig crypto \<Rightarrow> claims \<Rightarrow> int option \<Rightarrow> datetime \<Rightarrow> 'sig token" where
  "create_access_token cr data expires_delta now =
     (let expire =
            (case expires_delta of
               Some d \<Rightarrow> if d \<noteq> 0 then now + d
                         else now + timedelta_minutes ACCESS_TOKEN_EXPIRE_MINUTES
             | None \<Rightarrow> now + timedelta_minutes ACCESS_TOKEN_EXPIRE_MINUTES)
      in jwt_encode cr (data\<lparr>claim_exp := Some expire\<rparr>))"

definition decode_access_token ::
    "'sig crypto \<Rightarrow> 'sig token \<Rightarrow> datetime \<Rightarrow> claims option" where
  "decode_access_token cr tok now =
     (case jwt_decode cr tok now of Inl e \<Rightarrow> None | Inr payload \<Rightarrow> Some payload)"

section \<open>The store\<close>

text \<open>
  \<^verbatim>\<open>Result.scalar_one_or_none()\<close>: no row is \<^verbatim>\<open>None\<close>, one row is that row, more rows
  raise \<^verbatim>\<open>MultipleResultsFound\<close>.
\<close>

fun scalar_one_or_none :: "'a list \<Rightarrow> error + 'a option" where
  "scalar_one_or_none [] = Inr None"
| "scalar_one_or_none [x] = Inr (Some x)"
| "scalar_one_or_none (x # y # zs) = Inl MultipleResultsFound"

text \<open>
  \<^verbatim>\<open>db.add(user_obj); await db.commit(); await db.refresh(user_obj)\<close>. The row takes the
  next value of the sequence (a value is used up also when the insert fails) and the
  server default \<^verbatim>\<open>now()\<close>; the store refuses a row that breaks the primary key or
  one of the two \<^verbatim>\<open>unique=True\<close> columns, and the transaction is rolled back.
\<close>

definition insert_user ::
    "db \<Rightarrow> string \<Rightarrow> string \<Rightarrow> hashed \<Rightarrow> datetime \<Rightarrow> (error + User) \<times> db" where
  "insert_user d username email hashed_password now =
     (let new_id = users_id_seq d + 1;
          d1 = d\<lparr>users_id_seq := new_id\<rparr>;
          user_obj = \<lparr>user_id = new_id, user_username = username, user_email = email,
                      user_hashed_password = hashed_password, user_created_at = now\<rparr>
      in if list_ex (\<lambda>u. user_id u = new_id \<or> user_username u = username
                           \<or> user_email u = email) (users d)
         then (Inl IntegrityError, d1)
         else (Inr user_obj, d1\<lparr>users := users d @ [user_obj]\<rparr>))"

text \<open>
  \<^verbatim>\<open>db.add(task); await db.commit(); await db.refresh(task)\<close>: the column default
  \<^verbatim>\<open>completed = False\<close>, both timestamps from the server default, the primary key from
  the sequence; the store checks the primary key and the foreign key to \<^verbatim>\<open>users.id\<close>.
  The column \<^verbatim>\<open>due_date\<close> is a \<^verbatim>\<open>DateTime\<close> without time zone: the driver cannot encode
  a datetime with a time zone for it and raises before the statement reaches the store.
\<close>

definition insert_task ::
    "db \<Rightarrow> string \<Rightarrow> string option \<Rightarrow> py_datetime option \<Rightarrow> int \<Rightarrow> datetime
       \<Rightarrow> (error + Task) \<times> db" where
  "insert_task d title description due_date owner_id now =
     (let new_id = tasks_id_seq d + 1;
          d1 = d\<lparr>tasks_id_seq := new_id\<rparr>;
          task = \<lparr>task_id = new_id, task_title = title, task_description = description,
                  task_completed = False, task_due_date = due_date,
                  task_owner_id = owner_id, task_created_at = now, task_updated_at = now\<rparr>
      in if tz_aware due_date then (Inl DBAPIError, d)
         else if list_ex (\<lambda>t. task_id t = new_id) (tasks d)
            \<or> \<not> list_ex (\<lambda>u. user_id u = owner_id) (users d)
         then (Inl IntegrityError, d1)
         else (Inr task, d1\<lparr>tasks := tasks d @ [task]\<rparr>))"

text \<open>
  The attributes of a loaded task after the \<^verbatim>\<open>setattr\<close> loop of \<^verbatim>\<open>update_task\<close>: the
  object holds whatever was assigned, \<^verbatim>\<open>None\<close> included.
\<close>

record TaskAttrs =
  pa_title :: "string option"
  pa_description :: "string option"
  pa_completed :: "bool option"
  pa_due_date :: "py_datetime option"

definition setattrs :: "TaskUpdate \<Rightarrow> Task \<Rightarrow> TaskAttrs" where
  "setattrs task_in task =
     \<lparr>pa_title = (case tu_title task_in of None \<Rightarrow> Some (task_title task) | Some v \<Rightarrow> v),
      pa_description =
        (case tu_description task_in of None \<Rightarrow> task_description task | Some v \<Rightarrow> v),
      pa_completed =
        (case tu_completed task_in of None \<Rightarrow> Some (task_completed task) | Some v \<Rightarrow> v),
      pa_due_date = (case tu_due_date task_in of None \<Rightarrow> task_due_date task | Some v \<Rightarrow> v)\<rparr>"

text \<open>
  The flush at \<^verbatim>\<open>await db.commit()\<close> for a loaded task. The unit of work compares every
  attribute with the loaded value and emits an UPDATE for the net changes only: with
  none, no statement is sent and the row stays as it is, \<^verbatim>\<open>updated_at\<close> included.
  An UPDATE carries \<^verbatim>\<open>updated_at = now()\<close> (the column's \<^verbatim>\<open>onupdate\<close>). The driver
  cannot encode a changed \<^verbatim>\<open>due_date\<close> that has a time zone, and the store refuses
  \<^verbatim>\<open>NULL\<close> in the \<^verbatim>\<open>nullable=False\<close> columns \<^verbatim>\<open>title\<close> and \<^verbatim>\<open>completed\<close>.
\<close>

definition flush_task :: "Task \<Rightarrow> TaskAttrs \<Rightarrow> datetime \<Rightarrow> error + Task" where
  "flush_task task attrs now =
     (if pa_title attrs = Some (task_title task)
         \<and> pa_description attrs = task_description task
         \<and> pa_completed attrs = Some (task_completed task)
         \<and> pa_due_date attrs = task_due_date task
      then Inr task
      else if pa_due_date attrs \<noteq> task_due_date task \<and> tz_aware (pa_due_date attrs)
      then Inl DBAPIError
      else (case (pa_title attrs, pa_completed attrs) of
              (Some t, Some c) \<Rightarrow>
                Inr (task\<lparr>task_title := t, task_description := pa_description attrs,
                          task_completed := c, task_due_date := pa_due_date attrs,
                          task_updated_at := now\<rparr>)
            | _ \<Rightarrow> Inl IntegrityError))"

definition replace_task :: "Task \<Rightarrow> db \<Rightarrow> db" where
  "replace_task task d =
     d\<lparr>tasks := map (\<lambda>r. if task_id r = task_id task then task else r) (tasks d)\<rparr>"

definition remove_task :: "Task \<Rightarrow> db \<Rightarrow> db" where
  "remove_task task d = d\<lparr>tasks := filter (\<lambda>r. task_id r \<noteq> task_id task) (tasks d)\<rparr>"

text \<open>
  What the schema promises of every store: primary keys and the two unique columns
  hold no value twice, no key lies beyond its sequence, and a task's key is a value
  of its \<^verbatim>\<open>Integer\<close> column.
\<close>

definition db_ok :: "db \<Rightarrow> bool" where
  "db_ok d \<longleftrightarrow>
     distinct (map user_id (users d)) \<and> distinct (map user_username (users d))
     \<and> distinct (map user_email (users d)) \<and> distinct (map task_id (tasks d))
     \<and> list_all (\<lambda>u. user_id u \<le> users_id_seq d) (users d)
     \<and> list_all (\<lambda>t. task_id t \<le> tasks_id_seq d) (tasks d)
     \<and> list_all (\<lambda>t. in_int32 (task_id t)) (tasks d)"

section \<open>\<^verbatim>\<open>dependencies.py\<close>\<close>

definition credentials_exception :: error where
  "credentials_exception =
     HTTPException 401 ''Could not validate credentials.'' [(''WWW-Authenticate'', ''Bearer'')]"

definition get_current_user ::
    "'sig crypto \<Rightarrow> db \<Rightarrow> datetime \<Rightarrow> 'sig token \<Rightarrow> error + User" where
  "get_current_user cr d now tok =
     (case decode_access_token cr tok now of
        None \<Rightarrow> Inl credentials_exception
      | Some payload \<Rightarrow>
          (case claim_sub payload of
             None \<Rightarrow> Inl credentials_exception
           | Some username \<Rightarrow>
               (case scalar_one_or_none (filter (\<lambda>u. user_username u = username) (users d)) of
                  Inl e \<Rightarrow> Inl e
                | Inr None \<Rightarrow> Inl credentials_exception
                | Inr (Some user) \<Rightarrow> Inr user)))"

section \<open>\<^verbatim>\<open>endpoints.py\<close>\<close>

definition user_read :: "User \<Rightarrow> UserRead" where
  "user_read u =
     \<lparr>ur_id = user_id u, ur_username = user_username u, ur_email = user_email u,
      ur_created_at = user_created_at u\<rparr>"

definition task_read :: "Task \<Rightarrow> TaskRead" where
  "task_read t =
     \<lparr>tr_id = task_id t, tr_title = task_title t, tr_description = task_description t,
      tr_completed = task_completed t, tr_due_date = task_due_date t,
      tr_owner_id = task_owner_id t, tr_created_at = task_created_at t,
      tr_updated_at = task_updated_at t\<rparr>"

definition conflict_exception :: error where
  "conflict_exception = HTTPException 400 ''Username or email already in use.'' []"

definition login_exception :: error where
  "login_exception = HTTPException 401 ''Incorrect username or password.'' []"

definition not_found_exception :: error where
  "not_found_exception = HTTPException 404 ''Task not found.'' []"

text \<open>
  \<^verbatim>\<open>register_user\<close>. The existence query reads the store as it stands then (\<open>seen\<close>);
  the insert is checked by the store as it stands at the commit (\<open>d\<close>). A request
  served alone has \<open>seen = d\<close>; a registration committed by another request in between
  is a \<open>d\<close> with more users than \<open>seen\<close>.
\<close>

definition register_user_at ::
    "'sig crypto \<Rightarrow> db \<Rightarrow> db \<Rightarrow> UserRegistration \<Rightarrow> string \<Rightarrow> datetime
       \<Rightarrow> (error + UserRead) \<times> db" where
  "register_user_at cr seen d user_in salt now =
     (case scalar_one_or_none
             (filter (\<lambda>u. user_username u = reg_username user_in
                           \<or> user_email u = reg_email user_in) (users seen)) of
        Inl e \<Rightarrow> (Inl e, d)
      | Inr (Some existing) \<Rightarrow> (Inl conflict_exception, d)
      | Inr None \<Rightarrow>
          (case get_password_hash cr salt (reg_password user_in) of
             Inl e \<Rightarrow> (Inl e, d)
           | Inr hashed_password \<Rightarrow>
               (case insert_user d (reg_username user_in) (reg_email user_in)
                       hashed_password now of
                  (Inl e, d') \<Rightarrow> (Inl e, d')
                | (Inr user_obj, d') \<Rightarrow> (Inr (user_read user_obj), d'))))"

definition register_user ::
    "'sig crypto \<Rightarrow> db \<Rightarrow> UserRegistration \<Rightarrow> string \<Rightarrow> datetime
       \<Rightarrow> (error + UserRead) \<times> db" where
  "register_user cr d user_in salt now = register_user_at cr d d user_in salt now"

record 'sig Token =
  access_token :: "'sig token"
  token_type :: string

definition login_user ::
    "'sig crypto \<Rightarrow> db \<Rightarrow> UserLogin \<Rightarrow> datetime \<Rightarrow> error + 'sig Token" where
  "login_user cr d user_in now =
     (case scalar_one_or_none
             (filter (\<lambda>u. user_username u = login_username user_in) (users d)) of
        Inl e \<Rightarrow> Inl e
      | Inr None \<Rightarrow> Inl login_exception
      | Inr (Some user) \<Rightarrow>
          (case verify_password cr (login_password user_in) (user_hashed_password user) of
             Inl e \<Rightarrow> Inl e
           | Inr verified \<Rightarrow>
               if \<not> verified then Inl login_exception
               else Inr \<lparr>access_token =
                           create_access_token cr
                             \<lparr>claim_sub = Some (user_username user), claim_exp = None\<rparr>
                             None now,
                         token_type = ''bearer''\<rparr>))"

text \<open>
  The protected handlers. \<^verbatim>\<open>Depends(get_current_user)\<close> runs before the body of the
  handler, and its exception is the handler's.
\<close>

definition get_my_profile ::
    "'sig crypto \<Rightarrow> db \<Rightarrow> datetime \<Rightarrow> 'sig token \<Rightarrow> error + UserRead" where
  "get_my_profile cr d now tok =
     (case get_current_user cr d now tok of
        Inl e \<Rightarrow> Inl e
      | Inr current_user \<Rightarrow> Inr (user_read current_user))"

definition create_task ::
    "'sig crypto \<Rightarrow> db \<Rightarrow> datetime \<Rightarrow> 'sig token \<Rightarrow> TaskCreate \<Rightarrow> (error + TaskRead) \<times> db" where
  "create_task cr d now tok task_in =
     (case get_current_user cr d now tok of
        Inl e \<Rightarrow> (Inl e, d)
      | Inr current_user \<Rightarrow>
          (case insert_task d (tc_title task_in) (tc_description task_in)
                  (tc_due_date task_in) (user_id current_user) now of
             (Inl e, d') \<Rightarrow> (Inl e, d')
           | (Inr task, d') \<Rightarrow> (Inr (task_read task), d')))"

definition list_tasks ::
    "'sig crypto \<Rightarrow> db \<Rightarrow> datetime \<Rightarrow> 'sig token \<Rightarrow> error + TaskRead list" where
  "list_tasks cr d now tok =
     (case get_current_user cr d now tok of
        Inl e \<Rightarrow> Inl e
      | Inr current_user \<Rightarrow>
          Inr (map task_read
                 (filter (\<lambda>t. task_owner_id t = user_id current_user) (tasks d))))"

text \<open>
  The query shared by \<^verbatim>\<open>get_task\<close>, \<^verbatim>\<open>update_task\<close> and \<^verbatim>\<open>delete_task\<close>. The path
  parameter is a Python \<^verbatim>\<open>int\<close> of any size; the driver cannot encode one outside the
  range of the \<^verbatim>\<open>Integer\<close> column it is compared with, and raises.
\<close>

definition owned_task :: "db \<Rightarrow> int \<Rightarrow> User \<Rightarrow> error + Task option" where
  "owned_task d tid current_user =
     (if \<not> in_int32 tid then Inl DBAPIError
      else scalar_one_or_none
             (filter (\<lambda>t. task_id t = tid \<and> task_owner_id t = user_id current_user)
                (tasks d)))"

definition get_task ::
    "'sig crypto \<Rightarrow> db \<Rightarrow> datetime \<Rightarrow> 'sig token \<Rightarrow> int \<Rightarrow> error + TaskRead" where
  "get_task cr d now tok tid =
     (case get_current_user cr d now tok of
        Inl e \<Rightarrow> Inl e
      | Inr current_user \<Rightarrow>
          (case owned_task d tid current_user of
             Inl e \<Rightarrow> Inl e
           | Inr None \<Rightarrow> Inl not_found_exception
           | Inr (Some task) \<Rightarrow> Inr (task_read task)))"

definition update_task ::
    "'sig crypto \<Rightarrow> db \<Rightarrow> datetime \<Rightarrow> 'sig token \<Rightarrow> int \<Rightarrow> TaskUpdate
       \<Rightarrow> (error + TaskRead) \<times> db" where
  "update_task cr d now tok tid task_in =
     (case get_current_user cr d now tok of
        Inl e \<Rightarrow> (Inl e, d)
      | Inr current_user \<Rightarrow>
          (case owned_task d tid current_user of
             Inl e \<Rightarrow> (Inl e, d)
           | Inr None \<Rightarrow> (Inl not_found_exception, d)
           | Inr (Some task) \<Rightarrow>
               (case flush_task task (setattrs task_in task) now of
                  Inl e \<Rightarrow> (Inl e, d)
                | Inr task' \<Rightarrow> (Inr (task_read task'), replace_task task' d))))"

definition delete_task ::
    "'sig crypto \<Rightarrow> db \<Rightarrow> datetime \<Rightarrow> 'sig token \<Rightarrow> int \<Rightarrow> (error + unit) \<times> db" where
  "delete_task cr d now tok tid =
     (case get_current_user cr d now tok of
        Inl e \<Rightarrow> (Inl e, d)
      | Inr current_user \<Rightarrow>
          (case owned_task d tid current_user of
             Inl e \<Rightarrow> (Inl e, d)
           | Inr None \<Rightarrow> (Inl not_found_exception, d)
           | Inr (Some task) \<Rightarrow> (Inr (), remove_task task d)))"

section \<open>A concrete instance\<close>

text \<open>
  A small store and toy primitives on which the theorems below are run: the signature
  of a payload is the key paired with the payload, the digest of a password is the
  salt followed by the password.
\<close>

definition example_crypto :: "(string \<times> claims) crypto" where
  "example_crypto =
     \<lparr>SECRET_KEY = ''change_this_secret'', HS256 = (\<lambda>k c. (k, c)), bcrypt = (\<lambda>s p. s @ p)\<rparr>"

definition alice :: User where
  "alice = \<lparr>user_id = 1, user_username = ''alice'', user_email = ''a@x.com'',
            user_hashed_password = (''s1'', ''s1secret1''), user_created_at = 1\<rparr>"

definition bob :: User where
  "bob = \<lparr>user_id = 2, user_username = ''bob'', user_email = ''b@x.com'',
          user_hashed_password = (''s2'', ''s2hunter22''), user_created_at = 2\<rparr>"

definition milk :: Task where
  "milk = \<lparr>task_id = 1, task_title = ''buy milk'', task_description = None,
           task_completed = True, task_due_date = None, task_owner_id = 1,
           task_created_at = 3, task_updated_at = 5\<rparr>"

definition empty_db :: db where
  "empty_db = \<lparr>users = [], tasks = [], users_id_seq = 0, tasks_id_seq = 0\<rparr>"

definition example_db :: db where
  "example_db = \<lparr>users = [alice, bob], tasks = [milk], users_id_seq = 2, tasks_id_seq = 1\<rparr>"

definition token_for :: "string \<Rightarrow> datetime \<Rightarrow> (string \<times> claims) token" where
  "token_for username now =
     create_access_token example_crypto \<lparr>claim_sub = Some username, claim_exp = None\<rparr> None now"

text \<open>A token for \<open>alice\<close> signed with a key that is not the server's.\<close>

definition forged_token :: "(string \<times> claims) token" where
  "forged_token =
     JWS \<lparr>claim_sub = Some ''alice'', claim_exp = Some 86410\<rparr>
       (''guessed_secret'', \<lparr>claim_sub = Some ''alice'', claim_exp = Some 86410\<rparr>)"

text \<open>A password of seven characters, the fifth of which is the NUL byte.\<close>

definition nul_password :: string where
  "nul_password = ''secr'' @ CHR 0x00 # ''et''"

text \<open>A correctly signed, unexpired token whose payload has no \<^verbatim>\<open>sub\<close> entry.\<close>

definition anonymous_token :: "(string \<times> claims) token" where
  "anonymous_token = jwt_encode example_crypto \<lparr>claim_sub = None, claim_exp = Some 100\<rparr>"

section \<open>Queries on a keyed table\<close>

lemma scalar_one_or_none_Nil: "(scalar_one_or_none xs = Inr None) = (xs = [])"
  by (cases xs rule: scalar_one_or_none.cases) simp_all

lemma filter_key_distinct:
  "distinct (map f xs) \<Longrightarrow> x \<in> set xs \<Longrightarrow> filter (\<lambda>y. f y = f x) xs = [x]"
proof (induction xs)
  case Nil
  then show ?case by simp
next
  case (Cons a xs)
  show ?case
  proof (cases "a = x")
    case True
    with Cons.prems have "\<forall>y\<in>set xs. f y \<noteq> f x" by (auto simp: image_iff)
    then have "filter (\<lambda>y. f y = f x) xs = []" by (simp add: filter_empty_conv)
    with True show ?thesis by simp
  next
    case False
    with Cons.prems have "x \<in> set xs" "f a \<noteq> f x" by (auto simp: image_iff)
    with Cons show ?thesis by simp
  qed
qed

text \<open>On a column without repetitions the one-or-none query never sees two rows.\<close>

lemma select_by_key:
  assumes "distinct (map f xs)"
  shows "scalar_one_or_none (filter (\<lambda>y. f y = k) xs) = Inr (find (\<lambda>y. f y = k) xs)"
proof (cases "find (\<lambda>y. f y = k) xs")
  case None
  then have "filter (\<lambda>y. f y = k) xs = []"
    by (simp add: find_None_iff filter_empty_conv)
  with None show ?thesis by simp
next
  case (Some x)
  then have "x \<in> set xs" "f x = k"
    by (auto simp: find_Some_iff)
  with assms have "filter (\<lambda>y. f y = k) xs = [x]"
    using filter_key_distinct [of f xs x] by simp
  with Some show ?thesis by simp
qed
section \<open>Tokens\<close>

lemma create_access_token_default:
  "create_access_token cr data None now =
     jwt_encode cr (data\<lparr>claim_exp := Some (now + 86400)\<rparr>)"
  by (simp add: create_access_token_def Let_def timedelta_minutes_def
      ACCESS_TOKEN_EXPIRE_MINUTES_def)

lemma decode_encode:
  "decode_access_token cr (jwt_encode cr c) t =
     (case claim_exp c of None \<Rightarrow> Some c | Some e \<Rightarrow> if e < t then None else Some c)"
  by (simp add: decode_access_token_def jwt_decode_def jwt_encode_def split: option.splits)

text \<open>
  C4. A token issued at time \<open>T\<close> with the default lifetime carries the expiry
  \<open>T\<close> plus 24 hours; it decodes at every time up to that expiry and at no later one:
  in particular it is valid one minute after \<open>T\<close> and invalid 25 hours after \<open>T\<close>.
\<close>

theorem token_ttl:
  "create_access_token cr data None T =
     jwt_encode cr (data\<lparr>claim_exp := Some (T + 24 * 3600)\<rparr>)
   \<and> decode_access_token cr (create_access_token cr data None T) t =
       (if t \<le> T + 24 * 3600 then Some (data\<lparr>claim_exp := Some (T + 24 * 3600)\<rparr>) else None)
   \<and> decode_access_token cr (create_access_token cr data None T) (T + 60) =
       Some (data\<lparr>claim_exp := Some (T + 24 * 3600)\<rparr>)
   \<and> decode_access_token cr (create_access_token cr data None T) (T + 25 * 3600) = None"
  by (simp add: create_access_token_default decode_encode)

section \<open>Identity resolution\<close>

lemma get_current_user_cases:
  assumes "distinct (map user_username (users d))"
  shows "get_current_user cr d now tok =
     (case decode_access_token cr tok now of
        None \<Rightarrow> Inl credentials_exception
      | Some payload \<Rightarrow>
          (case claim_sub payload of
             None \<Rightarrow> Inl credentials_exception
           | Some username \<Rightarrow>
               (case find (\<lambda>u. user_username u = username) (users d) of
                  None \<Rightarrow> Inl credentials_exception
                | Some user \<Rightarrow> Inr user)))"
  by (simp add: get_current_user_def select_by_key [OF assms] split: option.splits)

lemma scalar_one_or_none_Some:
  "scalar_one_or_none xs = Inr (Some x) \<Longrightarrow> xs = [x]"
  by (cases xs rule: scalar_one_or_none.cases) simp_all

lemma get_current_user_Inr:
  assumes "get_current_user cr d now tok = Inr u"
  shows "u \<in> set (users d) \<and>
    (\<exists>payload. decode_access_token cr tok now = Some payload
        \<and> claim_sub payload = Some (user_username u))"
proof (cases "decode_access_token cr tok now")
  case None
  with assms show ?thesis by (simp add: get_current_user_def)
next
  case (Some payload)
  show ?thesis
  proof (cases "claim_sub payload")
    case None
    with Some assms show ?thesis by (simp add: get_current_user_def)
  next
    case sub: (Some s)
    let ?q = "scalar_one_or_none (filter (\<lambda>u. user_username u = s) (users d))"
    from assms Some sub have "?q = Inr (Some u)"
      by (cases ?q) (simp_all add: get_current_user_def split: option.splits)
    then have "filter (\<lambda>u. user_username u = s) (users d) = [u]"
      by (rule scalar_one_or_none_Some)
    then have "u \<in> set (filter (\<lambda>u. user_username u = s) (users d))" by simp
    then have "u \<in> set (users d)" "user_username u = s" by simp_all
    with Some sub show ?thesis by simp
  qed
qed

lemma distinct_key_unique:
  "distinct (map f xs) \<Longrightarrow> x \<in> set xs \<Longrightarrow> y \<in> set xs \<Longrightarrow> f x = f y \<Longrightarrow> x = y"
  by (simp add: distinct_map inj_on_def)

text \<open>
  Decoding fails exactly on a token that does not parse, on one whose signature is not
  the signature of its payload under the server's key, and on one whose expiry lies
  before the clock; a decoded payload is the payload of the token.
\<close>

lemma decode_access_token_None_iff:
  "(decode_access_token cr tok now = None) =
     ((\<exists>s. tok = Malformed s)
      \<or> (\<exists>payload sg. tok = JWS payload sg
            \<and> (sg \<noteq> HS256 cr (SECRET_KEY cr) payload
                \<or> (\<exists>e. claim_exp payload = Some e \<and> e < now))))"
proof (cases tok)
  case (Malformed s)
  then show ?thesis
    by (simp add: decode_access_token_def jwt_decode_def)
next
  case (JWS payload sg)
  show ?thesis
  proof (cases "claim_exp payload")
    case None
    with JWS show ?thesis
      by (simp add: decode_access_token_def jwt_decode_def)
  next
    case (Some e)
    with JWS show ?thesis
      by (simp add: decode_access_token_def jwt_decode_def)
  qed
qed

lemma decode_access_token_Some:
  assumes "decode_access_token cr tok now = Some payload"
  shows "tok = JWS payload (HS256 cr (SECRET_KEY cr) payload)"
proof (cases tok)
  case (Malformed s)
  with assms show ?thesis
    by (simp add: decode_access_token_def jwt_decode_def)
next
  case (JWS p sg)
  with assms show ?thesis
    by (simp add: decode_access_token_def jwt_decode_def split: if_splits option.splits)
qed

text \<open>
  C3. On a store that keeps usernames unique, \<open>get_current_user\<close> raises the 401
  \<open>credentials_exception\<close> exactly when the token does not decode or no user of the
  store has the token's subject as username (a payload without subject included); in
  every other case it returns a user of the store whose username is the subject, and
  that user is the only one with this username. The token does not decode exactly when
  it does not parse, is mis-signed (its signature is not the one of its payload under
  the server's key) or is expired; a payload that decodes is the token's own, signed
  with the server's key.
\<close>

theorem get_current_user_spec:
  assumes "db_ok d"
  shows "((get_current_user cr d now tok = Inl credentials_exception) =
           (decode_access_token cr tok now = None
            \<or> (\<forall>u\<in>set (users d).
                 Some (user_username u) \<noteq> Option.bind (decode_access_token cr tok now) claim_sub)))
    \<and> (get_current_user cr d now tok \<noteq> Inl credentials_exception \<longrightarrow>
           (\<exists>u. get_current_user cr d now tok = Inr u \<and> u \<in> set (users d)
              \<and> Option.bind (decode_access_token cr tok now) claim_sub = Some (user_username u)
              \<and> (\<forall>v\<in>set (users d). user_username v = user_username u \<longrightarrow> v = u)))
    \<and> ((decode_access_token cr tok now = None) =
          ((\<exists>s. tok = Malformed s)
           \<or> (\<exists>payload sg. tok = JWS payload sg
                 \<and> (sg \<noteq> HS256 cr (SECRET_KEY cr) payload
                     \<or> (\<exists>e. claim_exp payload = Some e \<and> e < now)))))
    \<and> (\<forall>payload. decode_access_token cr tok now = Some payload
          \<longrightarrow> tok = JWS payload (HS256 cr (SECRET_KEY cr) payload))"
proof -
  have A: "((get_current_user cr d now tok = Inl credentials_exception) =
           (decode_access_token cr tok now = None
            \<or> (\<forall>u\<in>set (users d).
                 Some (user_username u) \<noteq> Option.bind (decode_access_token cr tok now) claim_sub)))
    \<and> (get_current_user cr d now tok \<noteq> Inl credentials_exception \<longrightarrow>
           (\<exists>u. get_current_user cr d now tok = Inr u \<and> u \<in> set (users d)
              \<and> Option.bind (decode_access_token cr tok now) claim_sub = Some (user_username u)
              \<and> (\<forall>v\<in>set (users d). user_username v = user_username u \<longrightarrow> v = u)))"
  proof -
    from assms have dist: "distinct (map user_username (users d))"
      by (simp add: db_ok_def)
    note gcu = get_current_user_cases [OF dist, of cr now tok]
    show ?thesis
    proof (cases "decode_access_token cr tok now")
      case None
      with gcu show ?thesis by simp
    next
      case (Some payload)
      show ?thesis
      proof (cases "claim_sub payload")
        case None
        with Some gcu show ?thesis by simp
      next
        case sub: (Some s)
        have b: "Option.bind (decode_access_token cr tok now) claim_sub = Some s"
          using Some sub by simp
        show ?thesis
        proof (cases "find (\<lambda>u. user_username u = s) (users d)")
          case None
          then have no: "\<forall>u\<in>set (users d). Some (user_username u) \<noteq> Some s"
            by (simp add: find_None_iff)
          from None Some sub gcu have "get_current_user cr d now tok = Inl credentials_exception"
            by simp
          with no b show ?thesis by simp
        next
          case found: (Some u)
          then have u: "u \<in> set (users d)" "user_username u = s"
            by (auto simp: find_Some_iff)
          have uniq: "\<forall>v\<in>set (users d). user_username v = user_username u \<longrightarrow> v = u"
            using distinct_key_unique [OF dist _ u(1)] by blast
          from found Some sub gcu have r: "get_current_user cr d now tok = Inr u"
            by simp
          have ex: "\<exists>v\<in>set (users d). Some (user_username v) = Some s"
            using u by blast
          have l: "\<not> (decode_access_token cr tok now = None
              \<or> (\<forall>u\<in>set (users d).
                   Some (user_username u) \<noteq> Option.bind (decode_access_token cr tok now) claim_sub))"
            unfolding b using Some ex by simp
          have e: "\<exists>u. get_current_user cr d now tok = Inr u \<and> u \<in> set (users d)
                \<and> Option.bind (decode_access_token cr tok now) claim_sub = Some (user_username u)
                \<and> (\<forall>v\<in>set (users d). user_username v = user_username u \<longrightarrow> v = u)"
          proof -
            from b u(2) have "Option.bind (decode_access_token cr tok now) claim_sub
                = Some (user_username u)" by simp
            with r u(1) uniq show ?thesis by blast
          qed
          from r have "get_current_user cr d now tok \<noteq> Inl credentials_exception" by simp
          with l e show ?thesis by blast
        qed
      qed
    qed
  qed
  note B = decode_access_token_None_iff [of cr tok now]
  have C: "\<forall>payload. decode_access_token cr tok now = Some payload
          \<longrightarrow> tok = JWS payload (HS256 cr (SECRET_KEY cr) payload)"
    using decode_access_token_Some by blast
  show ?thesis
    using conjunct1 [OF A] conjunct2 [OF A] B C by (intro conjI)
qed

text \<open>The example store and its tokens.\<close>

lemma example_db_ok: "db_ok example_db"
  by (simp add: db_ok_def in_int32_def example_db_def alice_def bob_def milk_def)

lemma token_for_decode:
  "decode_access_token example_crypto (token_for n T) t =
     (if t \<le> T + 86400 then Some \<lparr>claim_sub = Some n, claim_exp = Some (T + 86400)\<rparr> else None)"
  by (simp add: token_for_def create_access_token_default decode_encode)

theorem get_current_user_spec_witness:
  "db_ok example_db
   \<and> get_current_user example_crypto example_db 70 (token_for ''alice'' 10) = Inr alice
   \<and> get_current_user example_crypto example_db 70 (token_for ''carol'' 10)
       = Inl credentials_exception
   \<and> get_current_user example_crypto example_db 90010 (token_for ''alice'' 10)
       = Inl credentials_exception
   \<and> get_current_user example_crypto example_db 70 forged_token = Inl credentials_exception
   \<and> get_current_user example_crypto example_db 70 (Malformed ''abc'')
       = Inl credentials_exception"
proof -
  have us: "users example_db = [alice, bob]"
    by (simp add: example_db_def)
  have n: "user_username alice = ''alice''" "user_username bob = ''bob''"
    by (simp_all add: alice_def bob_def)
  note t1 = get_current_user_spec [OF example_db_ok, of example_crypto 70 "token_for ''alice'' 10"]
  from conjunct1 [OF t1] conjunct1 [OF conjunct2 [OF t1]]
  have 1: "get_current_user example_crypto example_db 70 (token_for ''alice'' 10) = Inr alice"
    by (auto simp: token_for_decode us n)
  note t2 = get_current_user_spec [OF example_db_ok, of example_crypto 70 "token_for ''carol'' 10"]
  from conjunct1 [OF t2]
  have 2: "get_current_user example_crypto example_db 70 (token_for ''carol'' 10)
       = Inl credentials_exception"
    by (simp add: token_for_decode us n)
  note t3 = get_current_user_spec [OF example_db_ok, of example_crypto 90010 "token_for ''alice'' 10"]
  from conjunct1 [OF t3]
  have 3: "get_current_user example_crypto example_db 90010 (token_for ''alice'' 10)
       = Inl credentials_exception"
    by (simp add: token_for_decode)
  have f: "forged_token = JWS \<lparr>claim_sub = Some ''alice'', claim_exp = Some 86410\<rparr>
             (''guessed_secret'', \<lparr>claim_sub = Some ''alice'', claim_exp = Some 86410\<rparr>)"
    "(''guessed_secret'', \<lparr>claim_sub = Some ''alice'', claim_exp = Some 86410\<rparr>)
       \<noteq> HS256 example_crypto (SECRET_KEY example_crypto)
            \<lparr>claim_sub = Some ''alice'', claim_exp = Some 86410\<rparr>"
    by (simp_all add: forged_token_def example_crypto_def)
  note t4 = get_current_user_spec [OF example_db_ok, of example_crypto 70 forged_token]
  from f have "(\<exists>s. forged_token = Malformed s)
      \<or> (\<exists>payload sg. forged_token = JWS payload sg
            \<and> (sg \<noteq> HS256 example_crypto (SECRET_KEY example_crypto) payload
                \<or> (\<exists>e. claim_exp payload = Some e \<and> e < 70)))"
    by blast
  with conjunct1 [OF conjunct2 [OF conjunct2 [OF t4]]]
  have "decode_access_token example_crypto forged_token 70 = None"
    by (rule iffD2)
  with conjunct1 [OF t4]
  have 4: "get_current_user example_crypto example_db 70 forged_token
       = Inl credentials_exception"
    by simp
  note t5 = get_current_user_spec [OF example_db_ok, of example_crypto 70 "Malformed ''abc''"]
  have "(\<exists>s. Malformed ''abc'' = (Malformed s :: (string \<times> claims) token))
      \<or> (\<exists>payload sg. Malformed ''abc'' = JWS payload sg
            \<and> (sg \<noteq> HS256 example_crypto (SECRET_KEY example_crypto) payload
                \<or> (\<exists>e. claim_exp payload = Some e \<and> e < 70)))"
    by blast
  with conjunct1 [OF conjunct2 [OF conjunct2 [OF t5]]]
  have "decode_access_token example_crypto (Malformed ''abc'') 70 = None"
    by (rule iffD2)
  with conjunct1 [OF t5]
  have 5: "get_current_user example_crypto example_db 70 (Malformed ''abc'')
       = Inl credentials_exception"
    by simp
  from example_db_ok 1 2 3 4 5 show ?thesis by simp
qed

section \<open>Requests without a subject\<close>

lemma get_current_user_no_sub:
  assumes "jwt_decode cr tok now = Inr payload" and "claim_sub payload = None"
  shows "get_current_user cr d now tok = Inl credentials_exception"
  using assms by (simp add: get_current_user_def decode_access_token_def)

text \<open>
  C10. A token that passes \<^verbatim>\<open>jwt.decode\<close> (well signed, not expired) but whose payload
  has no \<^verbatim>\<open>sub\<close> entry is rejected by the profile handler and by all five task
  handlers with the 401 \<open>credentials_exception\<close>, whatever the store holds; the
  handlers that write hand the store back as it was.
\<close>

theorem no_sub_unauthorized:
  assumes "jwt_decode cr tok now = Inr payload" and "claim_sub payload = None"
  shows "status_code credentials_exception = 401
    \<and> get_my_profile cr d now tok = Inl credentials_exception
    \<and> create_task cr d now tok task_in = (Inl credentials_exception, d)
    \<and> list_tasks cr d now tok = Inl credentials_exception
    \<and> get_task cr d now tok tid = Inl credentials_exception
    \<and> update_task cr d now tok tid task_upd = (Inl credentials_exception, d)
    \<and> delete_task cr d now tok tid = (Inl credentials_exception, d)"
proof -
  note u = get_current_user_no_sub [OF assms, of d]
  have "status_code credentials_exception = 401"
    by (simp add: credentials_exception_def)
  moreover have "get_my_profile cr d now tok = Inl credentials_exception"
    by (simp add: get_my_profile_def u)
  moreover have "create_task cr d now tok task_in = (Inl credentials_exception, d)"
    by (simp add: create_task_def u)
  moreover have "list_tasks cr d now tok = Inl credentials_exception"
    by (simp add: list_tasks_def u)
  moreover have "get_task cr d now tok tid = Inl credentials_exception"
    by (simp add: get_task_def u)
  moreover have "update_task cr d now tok tid task_upd = (Inl credentials_exception, d)"
    by (simp add: update_task_def u)
  moreover have "delete_task cr d now tok tid = (Inl credentials_exception, d)"
    by (simp add: delete_task_def u)
  ultimately show ?thesis by simp
qed

theorem no_sub_unauthorized_witness:
  "jwt_decode example_crypto anonymous_token 50 = Inr \<lparr>claim_sub = None, claim_exp = Some 100\<rparr>
    \<and> get_my_profile example_crypto example_db 50 anonymous_token = Inl credentials_exception
    \<and> create_task example_crypto example_db 50 anonymous_token
         \<lparr>tc_title = ''buy milk'', tc_description = None, tc_due_date = None\<rparr>
       = (Inl credentials_exception, example_db)
    \<and> list_tasks example_crypto example_db 50 anonymous_token = Inl credentials_exception
    \<and> get_task example_crypto example_db 50 anonymous_token 1 = Inl credentials_exception
    \<and> update_task example_crypto example_db 50 anonymous_token 1
         \<lparr>tu_title = None, tu_description = None, tu_completed = Some (Some False),
          tu_due_date = None\<rparr>
       = (Inl credentials_exception, example_db)
    \<and> delete_task example_crypto example_db 50 anonymous_token 1
       = (Inl credentials_exception, example_db)"
proof -
  have dec: "jwt_decode example_crypto anonymous_token 50
               = Inr \<lparr>claim_sub = None, claim_exp = Some 100\<rparr>"
    by (simp add: anonymous_token_def jwt_encode_def jwt_decode_def)
  have sub: "claim_sub \<lparr>claim_sub = None, claim_exp = Some 100\<rparr> = None"
    by simp
  from dec no_sub_unauthorized [OF dec sub] show ?thesis
    by simp
qed
section \<open>Ownership isolation\<close>

lemma owned_task_foreign:
  assumes "distinct (map task_id (tasks d))" and "t \<in> set (tasks d)"
    and "task_owner_id t \<noteq> user_id b" and "in_int32 (task_id t)"
  shows "owned_task d (task_id t) b = Inr None"
proof -
  have "\<not> (task_id r = task_id t \<and> task_owner_id r = user_id b)" if "r \<in> set (tasks d)" for r
  proof
    assume a: "task_id r = task_id t \<and> task_owner_id r = user_id b"
    with assms(1,2) that have "r = t"
      using distinct_key_unique [of task_id "tasks d" r t] by simp
    with a assms(3) show False by simp
  qed
  then have "filter (\<lambda>r. task_id r = task_id t \<and> task_owner_id r = user_id b) (tasks d) = []"
    by (simp add: filter_empty_conv)
  with assms(4) show ?thesis by (simp add: owned_task_def)
qed

lemma db_ok_task_id:
  assumes "db_ok d" and "t \<in> set (tasks d)"
  shows "in_int32 (task_id t)"
  using assms by (simp add: db_ok_def list_all_iff)

lemma owned_task_absent:
  assumes "\<forall>r\<in>set (tasks d). task_id r \<noteq> tid" and "in_int32 tid"
  shows "owned_task d tid b = Inr None"
proof -
  from assms
  have "filter (\<lambda>r. task_id r = tid \<and> task_owner_id r = user_id b) (tasks d) = []"
    by (simp add: filter_empty_conv)
  with assms(2) show ?thesis by (simp add: owned_task_def)
qed

text \<open>A path id outside the column's range never reaches the store.\<close>

lemma owned_task_out_of_range:
  "\<not> in_int32 tid \<Longrightarrow> owned_task d tid b = Inl DBAPIError"
  by (simp add: owned_task_def)

text \<open>
  C1. Let the caller resolve to user \<open>b\<close> and let \<open>t\<close> be a stored task of another
  owner. Get, Update and Delete on the id of \<open>t\<close> all raise the 404
  \<open>not_found_exception\<close>, the very outcome they have on an id of the column's range
  that no task carries, and Update and Delete leave the store as it was.
\<close>

theorem foreign_task_not_found:
  assumes "db_ok d" and "get_current_user cr d now tok = Inr b"
    and "t \<in> set (tasks d)" and "task_owner_id t \<noteq> user_id b"
    and "\<forall>r\<in>set (tasks d). task_id r \<noteq> absent" and "in_int32 absent"
  shows "status_code not_found_exception = 404
    \<and> get_task cr d now tok (task_id t) = Inl not_found_exception
    \<and> get_task cr d now tok absent = Inl not_found_exception
    \<and> update_task cr d now tok (task_id t) task_upd = (Inl not_found_exception, d)
    \<and> update_task cr d now tok absent task_upd = (Inl not_found_exception, d)
    \<and> delete_task cr d now tok (task_id t) = (Inl not_found_exception, d)
    \<and> delete_task cr d now tok absent = (Inl not_found_exception, d)"
proof -
  from assms(1) have "distinct (map task_id (tasks d))"
    by (simp add: db_ok_def)
  then have f: "owned_task d (task_id t) b = Inr None"
    using assms(3,4) db_ok_task_id [OF assms(1,3)] by (rule owned_task_foreign)
  from assms(5,6) have a: "owned_task d absent b = Inr None"
    by (rule owned_task_absent)
  note u = assms(2)
  have "status_code not_found_exception = 404"
    by (simp add: not_found_exception_def)
  moreover have "get_task cr d now tok (task_id t) = Inl not_found_exception"
    by (simp add: get_task_def u f)
  moreover have "get_task cr d now tok absent = Inl not_found_exception"
    by (simp add: get_task_def u a)
  moreover have "update_task cr d now tok (task_id t) task_upd = (Inl not_found_exception, d)"
    by (simp add: update_task_def u f)
  moreover have "update_task cr d now tok absent task_upd = (Inl not_found_exception, d)"
    by (simp add: update_task_def u a)
  moreover have "delete_task cr d now tok (task_id t) = (Inl not_found_exception, d)"
    by (simp add: delete_task_def u f)
  moreover have "delete_task cr d now tok absent = (Inl not_found_exception, d)"
    by (simp add: delete_task_def u a)
  ultimately show ?thesis by simp
qed

lemma get_current_user_example:
  "t \<le> T + 86400 \<Longrightarrow> get_current_user example_crypto example_db t (token_for ''alice'' T) = Inr alice"
  "t \<le> T + 86400 \<Longrightarrow> get_current_user example_crypto example_db t (token_for ''bob'' T) = Inr bob"
  by (simp_all add: get_current_user_def token_for_decode example_db_def alice_def bob_def)

theorem foreign_task_not_found_witness:
  "get_current_user example_crypto example_db 70 (token_for ''bob'' 10) = Inr bob
    \<and> milk \<in> set (tasks example_db) \<and> task_owner_id milk \<noteq> user_id bob
    \<and> get_task example_crypto example_db 70 (token_for ''bob'' 10) 1 = Inl not_found_exception
    \<and> get_task example_crypto example_db 70 (token_for ''bob'' 10) 7 = Inl not_found_exception
    \<and> update_task example_crypto example_db 70 (token_for ''bob'' 10) 1
         \<lparr>tu_title = Some (Some ''stolen''), tu_description = None, tu_completed = None,
          tu_due_date = None\<rparr>
       = (Inl not_found_exception, example_db)
    \<and> delete_task example_crypto example_db 70 (token_for ''bob'' 10) 1
       = (Inl not_found_exception, example_db)
    \<and> delete_task example_crypto example_db 70 (token_for ''bob'' 10) 7
       = (Inl not_found_exception, example_db)"
proof -
  have u: "get_current_user example_crypto example_db 70 (token_for ''bob'' 10) = Inr bob"
    by (simp add: get_current_user_example)
  have m: "milk \<in> set (tasks example_db)"
    by (simp add: example_db_def)
  have o: "task_owner_id milk \<noteq> user_id bob"
    by (simp add: milk_def bob_def)
  have ab: "\<forall>r\<in>set (tasks example_db). task_id r \<noteq> 7"
    by (simp add: example_db_def milk_def)
  have i: "task_id milk = 1"
    by (simp add: milk_def)
  have r: "in_int32 7"
    by (simp add: in_int32_def)
  from foreign_task_not_found [OF example_db_ok u m o ab r] u m o show ?thesis
    by (simp add: i)
qed

section \<open>Creating a task\<close>

text \<open>
  For a caller that resolves to user \<open>u\<close> on a store that satisfies the schema,
  \<open>create_task\<close> succeeds for every body whose due date is absent or naive: the new
  task is appended to the table, its owner is \<open>u\<close>, it is not completed, both
  timestamps are the server's clock, its key is fresh, and title, description and due
  date are the body's. The body has no field for the owner or for \<open>completed\<close>.
\<close>

lemma create_task_naive:
  assumes "db_ok d" and "get_current_user cr d now tok = Inr u"
    and "\<not> tz_aware (tc_due_date task_in)"
  shows "\<exists>t d'. create_task cr d now tok task_in = (Inr (task_read t), d')
    \<and> tasks d' = tasks d @ [t] \<and> users d' = users d
    \<and> task_owner_id t = user_id u \<and> \<not> task_completed t
    \<and> task_created_at t = now \<and> task_updated_at t = now
    \<and> task_id t \<notin> task_id ` set (tasks d)
    \<and> task_title t = tc_title task_in \<and> task_description t = tc_description task_in
    \<and> task_due_date t = tc_due_date task_in
    \<and> tr_owner_id (task_read t) = user_id u \<and> \<not> tr_completed (task_read t)"
proof -
  from assms(2) have m: "u \<in> set (users d)"
    using get_current_user_Inr by blast
  then have fk: "list_ex (\<lambda>v. user_id v = user_id u) (users d)"
    by (auto simp: list_ex_iff)
  from assms(1) have "\<forall>r\<in>set (tasks d). task_id r \<le> tasks_id_seq d"
    by (simp add: db_ok_def list_all_iff)
  then have fresh: "\<forall>r\<in>set (tasks d). task_id r \<noteq> tasks_id_seq d + 1"
    by auto
  then have pk: "\<not> list_ex (\<lambda>r. task_id r = tasks_id_seq d + 1) (tasks d)"
    by (simp add: list_ex_iff)
  let ?t = "\<lparr>task_id = tasks_id_seq d + 1, task_title = tc_title task_in,
             task_description = tc_description task_in, task_completed = False,
             task_due_date = tc_due_date task_in, task_owner_id = user_id u,
             task_created_at = now, task_updated_at = now\<rparr>"
  let ?d = "d\<lparr>tasks_id_seq := tasks_id_seq d + 1, tasks := tasks d @ [?t]\<rparr>"
  have ins: "insert_task d (tc_title task_in) (tc_description task_in) (tc_due_date task_in)
               (user_id u) now = (Inr ?t, ?d)"
    using fk pk assms(3) by (simp add: insert_task_def Let_def)
  have c: "create_task cr d now tok task_in = (Inr (task_read ?t), ?d)"
    by (simp add: create_task_def assms(2) ins)
  have f: "task_id ?t \<notin> task_id ` set (tasks d)"
    using fresh by auto
  show ?thesis
    apply (rule exI [of _ ?t])
    apply (rule exI [of _ ?d])
    using c f by (simp add: task_read_def)
qed

text \<open>
  C9. A due date with a time zone passes the validation of \<^verbatim>\<open>TaskCreate\<close>, but the
  driver cannot encode it for the column \<^verbatim>\<open>due_date\<close>, which alone among the
  \<^verbatim>\<open>DateTime\<close> columns is declared without time zone. For \<open>bob\<close>, a body with the due
  date 500 at UTC offset 0 ends in the uncaught \<^verbatim>\<open>DBAPIError\<close>; no task is created.
  The same body with the naive due date 500 succeeds.
\<close>

theorem create_task_aware_due_date:
  "get_current_user example_crypto example_db 70 (token_for ''bob'' 10) = Inr bob
   \<and> create_task example_crypto example_db 70 (token_for ''bob'' 10)
        \<lparr>tc_title = ''walk dog'', tc_description = None, tc_due_date = Some (Aware 500 0)\<rparr>
      = (Inl DBAPIError, example_db)
   \<and> fst (create_task example_crypto example_db 70 (token_for ''bob'' 10)
        \<lparr>tc_title = ''walk dog'', tc_description = None, tc_due_date = Some (Naive 500)\<rparr>)
      = Inr \<lparr>tr_id = 2, tr_title = ''walk dog'', tr_description = None, tr_completed = False,
             tr_due_date = Some (Naive 500), tr_owner_id = 2, tr_created_at = 70,
             tr_updated_at = 70\<rparr>"
proof -
  have u: "get_current_user example_crypto example_db 70 (token_for ''bob'' 10) = Inr bob"
    by (simp add: get_current_user_example)
  have a: "create_task example_crypto example_db 70 (token_for ''bob'' 10)
        \<lparr>tc_title = ''walk dog'', tc_description = None, tc_due_date = Some (Aware 500 0)\<rparr>
      = (Inl DBAPIError, example_db)"
    by (simp add: create_task_def u insert_task_def Let_def)
  have b: "fst (create_task example_crypto example_db 70 (token_for ''bob'' 10)
        \<lparr>tc_title = ''walk dog'', tc_description = None, tc_due_date = Some (Naive 500)\<rparr>)
      = Inr \<lparr>tr_id = 2, tr_title = ''walk dog'', tr_description = None, tr_completed = False,
             tr_due_date = Some (Naive 500), tr_owner_id = 2, tr_created_at = 70,
             tr_updated_at = 70\<rparr>"
  proof -
    let ?t = "\<lparr>task_id = 2, task_title = ''walk dog'', task_description = None,
               task_completed = False, task_due_date = Some (Naive 500), task_owner_id = 2,
               task_created_at = 70, task_updated_at = 70\<rparr>"
    have "insert_task example_db ''walk dog'' None (Some (Naive 500)) (user_id bob) 70
        = (Inr ?t, example_db\<lparr>tasks_id_seq := 2, tasks := tasks example_db @ [?t]\<rparr>)"
      by (simp add: insert_task_def Let_def example_db_def alice_def bob_def milk_def)
    then show ?thesis
      by (simp add: create_task_def u task_read_def)
  qed
  from u a b show ?thesis by simp
qed

section \<open>Login\<close>

lemma login_user_cases:
  assumes "distinct (map user_username (users d))"
  shows "login_user cr d user_in now =
     (case find (\<lambda>u. user_username u = login_username user_in) (users d) of
        None \<Rightarrow> Inl login_exception
      | Some user \<Rightarrow>
          (case verify_password cr (login_password user_in) (user_hashed_password user) of
             Inl e \<Rightarrow> Inl e
           | Inr verified \<Rightarrow>
               if \<not> verified then Inl login_exception
               else Inr \<lparr>access_token =
                           create_access_token cr
                             \<lparr>claim_sub = Some (user_username user), claim_exp = None\<rparr>
                             None now,
                         token_type = ''bearer''\<rparr>))"
  by (simp add: login_user_def select_by_key [OF assms] split: option.splits)

lemma find_by_key:
  assumes "distinct (map f xs)" and "x \<in> set xs"
  shows "find (\<lambda>y. f y = f x) xs = Some x"
proof -
  from assms have "filter (\<lambda>y. f y = f x) xs = [x]"
    by (rule filter_key_distinct)
  then have "scalar_one_or_none (filter (\<lambda>y. f y = f x) xs) = Inr (Some x)"
    by simp
  with select_by_key [OF assms(1), of "f x"] show ?thesis
    by simp
qed

text \<open>
  For a password without NUL byte, on a store that keeps usernames unique: a login
  for a username that no user has and a login for an existing user whose password does
  not verify both raise the one 401 \<open>login_exception\<close>, and a login that fails raises
  nothing else.
\<close>

lemma login_failure_uniform:
  assumes "db_ok d" and "CHR 0x00 \<notin> set (login_password user_in)"
  shows "status_code login_exception = 401
    \<and> ((\<forall>u\<in>set (users d). user_username u \<noteq> login_username user_in)
          \<longrightarrow> login_user cr d user_in now = Inl login_exception)
    \<and> (\<forall>u\<in>set (users d).
          user_username u = login_username user_in
          \<and> verify_password cr (login_password user_in) (user_hashed_password u) = Inr False
          \<longrightarrow> login_user cr d user_in now = Inl login_exception)
    \<and> (\<forall>e. login_user cr d user_in now = Inl e \<longrightarrow> e = login_exception)"
proof -
  from assms(1) have dist: "distinct (map user_username (users d))"
    by (simp add: db_ok_def)
  note lu = login_user_cases [OF dist, of cr user_in now]
  have s: "status_code login_exception = 401"
    by (simp add: login_exception_def)
  have a: "login_user cr d user_in now = Inl login_exception"
    if "\<forall>u\<in>set (users d). user_username u \<noteq> login_username user_in"
  proof -
    from that have "find (\<lambda>u. user_username u = login_username user_in) (users d) = None"
      by (simp add: find_None_iff)
    with lu show ?thesis by simp
  qed
  have b: "login_user cr d user_in now = Inl login_exception"
    if "u \<in> set (users d)" and "user_username u = login_username user_in"
      and "verify_password cr (login_password user_in) (user_hashed_password u) = Inr False"
    for u
  proof -
    from find_by_key [OF dist that(1)] that(2)
    have "find (\<lambda>u. user_username u = login_username user_in) (users d) = Some u"
      by simp
    with lu that(3) show ?thesis by simp
  qed
  have c: "e = login_exception" if "login_user cr d user_in now = Inl e" for e
  proof (cases "find (\<lambda>u. user_username u = login_username user_in) (users d)")
    case None
    with that lu show ?thesis by simp
  next
    case (Some u)
    from assms(2)
    have "verify_password cr (login_password user_in) (user_hashed_password u)
        = Inr (bcrypt cr (fst (user_hashed_password u)) (login_password user_in)
                = snd (user_hashed_password u))"
      by (simp add: verify_password_def)
    with that Some show ?thesis
      unfolding lu by (simp split: if_splits)
  qed
  from s a b c show ?thesis by blast
qed

text \<open>
  C8. A password with a NUL byte passes the length rule of \<^verbatim>\<open>UserLogin\<close>, and the
  password library refuses it when it verifies. \<open>login_user\<close> verifies only when the
  username exists: for the existing \<open>alice\<close> the login ends in the uncaught
  \<^verbatim>\<open>PasswordValueError\<close>, for the unknown \<open>carol\<close> in the 401 \<open>login_exception\<close>. The
  two failing logins are told apart by their responses.
\<close>

theorem login_nul_password:
  "login_user example_crypto example_db
      \<lparr>login_username = ''alice'', login_password = nul_password\<rparr> 20
     = Inl PasswordValueError
   \<and> login_user example_crypto example_db
      \<lparr>login_username = ''carol'', login_password = nul_password\<rparr> 20
     = Inl login_exception
   \<and> PasswordValueError \<noteq> login_exception
   \<and> length nul_password = 7"
proof -
  have 1: "login_user example_crypto example_db
      \<lparr>login_username = ''alice'', login_password = nul_password\<rparr> 20
     = Inl PasswordValueError"
    by (simp add: login_user_def verify_password_def example_db_def alice_def bob_def
        nul_password_def)
  have 2: "login_user example_crypto example_db
      \<lparr>login_username = ''carol'', login_password = nul_password\<rparr> 20
     = Inl login_exception"
    by (simp add: login_user_def example_db_def alice_def bob_def)
  have 3: "PasswordValueError \<noteq> login_exception"
    by (simp add: login_exception_def)
  have 4: "length nul_password = 7"
    by (simp add: nul_password_def)
  from 1 2 3 4 show ?thesis by simp
qed

section \<open>Registration\<close>

text \<open>The row a registration writes, and the store after it.\<close>

lemma insert_user_fresh:
  assumes "db_ok d"
    and "\<forall>u\<in>set (users d). user_username u \<noteq> n \<and> user_email u \<noteq> e"
  shows "insert_user d n e h now =
     (Inr \<lparr>user_id = users_id_seq d + 1, user_username = n, user_email = e,
           user_hashed_password = h, user_created_at = now\<rparr>,
      d\<lparr>users_id_seq := users_id_seq d + 1,
        users := users d @ [\<lparr>user_id = users_id_seq d + 1, user_username = n, user_email = e,
           user_hashed_password = h, user_created_at = now\<rparr>]\<rparr>)"
proof -
  from assms(1) have "\<forall>u\<in>set (users d). user_id u \<le> users_id_seq d"
    by (simp add: db_ok_def list_all_iff)
  then have "\<forall>u\<in>set (users d). user_id u \<noteq> users_id_seq d + 1"
    by auto
  with assms(2)
  have "\<not> list_ex (\<lambda>u. user_id u = users_id_seq d + 1 \<or> user_username u = n
                           \<or> user_email u = e) (users d)"
    by (simp add: list_ex_iff)
  then show ?thesis
    by (simp add: insert_user_def Let_def)
qed

lemma register_user_fresh:
  assumes "db_ok d"
    and "\<forall>u\<in>set (users d). user_username u \<noteq> reg_username user_in
                              \<and> user_email u \<noteq> reg_email user_in"
    and "CHR 0x00 \<notin> set (reg_password user_in)"
  shows "register_user cr d user_in salt now =
     (Inr \<lparr>ur_id = users_id_seq d + 1, ur_username = reg_username user_in,
           ur_email = reg_email user_in, ur_created_at = now\<rparr>,
      d\<lparr>users_id_seq := users_id_seq d + 1,
        users := users d @ [\<lparr>user_id = users_id_seq d + 1,
           user_username = reg_username user_in, user_email = reg_email user_in,
           user_hashed_password = (salt, bcrypt cr salt (reg_password user_in)),
           user_created_at = now\<rparr>]\<rparr>)"
proof -
  from assms(2)
  have "filter (\<lambda>u. user_username u = reg_username user_in
                           \<or> user_email u = reg_email user_in) (users d) = []"
    by (simp add: filter_empty_conv)
  then show ?thesis
    using assms(3)
    by (simp add: register_user_def register_user_at_def get_password_hash_def
        insert_user_fresh [OF assms(1,2)] user_read_def)
qed

lemma db_ok_add_user:
  assumes "db_ok d"
    and "\<forall>u\<in>set (users d). user_username u \<noteq> n \<and> user_email u \<noteq> e"
  shows "db_ok (d\<lparr>users_id_seq := users_id_seq d + 1,
        users := users d @ [\<lparr>user_id = users_id_seq d + 1, user_username = n, user_email = e,
           user_hashed_password = h, user_created_at = now\<rparr>]\<rparr>)"
proof -
  from assms(1) have le: "\<forall>u\<in>set (users d). user_id u \<le> users_id_seq d"
    by (simp add: db_ok_def list_all_iff)
  then have "\<forall>u\<in>set (users d). user_id u \<noteq> users_id_seq d + 1"
    by auto
  then have 1: "users_id_seq d + 1 \<notin> user_id ` set (users d)"
    by auto
  from assms(2) have 2: "n \<notin> user_username ` set (users d)" "e \<notin> user_email ` set (users d)"
    by auto
  from le have 3: "\<forall>u\<in>set (users d). user_id u \<le> users_id_seq d + 1"
    by auto
  from assms(1) 1 2 3 show ?thesis
    by (simp add: db_ok_def list_all_iff)
qed

text \<open>
  For a password without NUL byte, on a store that satisfies the schema and has no
  user with the requested username or email, \<open>register_user\<close> succeeds; a login with
  the same username and password against the store it leaves then succeeds too, and at
  any time up to the token's expiry the token decodes to a payload whose subject is the
  username and resolves to the registered user.
\<close>

lemma register_then_login:
  assumes "db_ok d"
    and "\<forall>u\<in>set (users d). user_username u \<noteq> reg_username user_in
                              \<and> user_email u \<noteq> reg_email user_in"
    and "t \<le> now' + 86400"
    and "CHR 0x00 \<notin> set (reg_password user_in)"
  shows "\<exists>r d' tok u. register_user cr d user_in salt now = (Inr r, d')
    \<and> ur_username r = reg_username user_in \<and> ur_email r = reg_email user_in
    \<and> db_ok d'
    \<and> login_user cr d' \<lparr>login_username = reg_username user_in,
                          login_password = reg_password user_in\<rparr> now' = Inr tok
    \<and> token_type tok = ''bearer''
    \<and> Option.bind (decode_access_token cr (access_token tok) t) claim_sub
        = Some (reg_username user_in)
    \<and> get_current_user cr d' t (access_token tok) = Inr u
    \<and> user_username u = reg_username user_in \<and> user_read u = r"
proof -
  let ?h = "(salt, bcrypt cr salt (reg_password user_in))"
  let ?u = "\<lparr>user_id = users_id_seq d + 1,
           user_username = reg_username user_in, user_email = reg_email user_in,
           user_hashed_password = ?h, user_created_at = now\<rparr>"
  let ?d = "d\<lparr>users_id_seq := users_id_seq d + 1, users := users d @ [?u]\<rparr>"
  let ?tok = "create_access_token cr
                \<lparr>claim_sub = Some (reg_username user_in), claim_exp = None\<rparr> None now'"
  have reg: "register_user cr d user_in salt now = (Inr (user_read ?u), ?d)"
    by (simp add: register_user_fresh [OF assms(1,2,4)] user_read_def)
  have ok: "db_ok ?d"
    using assms(1,2) by (rule db_ok_add_user)
  from assms(2)
  have q: "filter (\<lambda>u. user_username u = reg_username user_in) (users d) = []"
    by (simp add: filter_empty_conv)
  have v: "verify_password cr (reg_password user_in) ?h = Inr True"
    using assms(4) by (simp add: verify_password_def)
  have login: "login_user cr ?d \<lparr>login_username = reg_username user_in,
                 login_password = reg_password user_in\<rparr> now'
               = Inr \<lparr>access_token = ?tok, token_type = ''bearer''\<rparr>"
    using v by (simp add: login_user_def q)
  have dec: "decode_access_token cr ?tok t
      = Some \<lparr>claim_sub = Some (reg_username user_in), claim_exp = Some (now' + 86400)\<rparr>"
    using assms(3) by (simp add: create_access_token_default decode_encode)
  have res: "get_current_user cr ?d t ?tok = Inr ?u"
    by (simp add: get_current_user_def dec q)
  show ?thesis
    apply (rule exI [of _ "user_read ?u"])
    apply (rule exI [of _ ?d])
    apply (rule exI [of _ "\<lparr>access_token = ?tok, token_type = ''bearer''\<rparr>"])
    apply (rule exI [of _ ?u])
    using reg ok login dec res by (simp add: user_read_def)
qed

text \<open>
  C2. A password with a NUL byte passes the length rule of \<^verbatim>\<open>UserRegistration\<close>, and
  the password library refuses to hash it. \<open>register_user\<close> does not catch the error:
  for a username and an email that no user has, the registration ends in the uncaught
  \<^verbatim>\<open>PasswordValueError\<close>, no user is stored, and the login that was to follow finds no
  user.
\<close>

theorem register_nul_password:
  "register_user example_crypto example_db
      \<lparr>reg_username = ''carol'', reg_email = ''c@x.com'', reg_password = nul_password\<rparr>
      ''s3'' 15
     = (Inl PasswordValueError, example_db)
   \<and> login_user example_crypto example_db
      \<lparr>login_username = ''carol'', login_password = nul_password\<rparr> 20
     = Inl login_exception
   \<and> length nul_password = 7"
proof -
  have 1: "register_user example_crypto example_db
      \<lparr>reg_username = ''carol'', reg_email = ''c@x.com'', reg_password = nul_password\<rparr>
      ''s3'' 15
     = (Inl PasswordValueError, example_db)"
  proof -
    have "filter (\<lambda>u. user_username u = ''carol'' \<or> user_email u = ''c@x.com'')
            (users example_db) = []"
      by (simp add: example_db_def alice_def bob_def)
    moreover have "get_password_hash example_crypto ''s3'' nul_password = Inl PasswordValueError"
      by (simp add: get_password_hash_def nul_password_def)
    ultimately show ?thesis
      by (simp add: register_user_def register_user_at_def)
  qed
  have 2: "login_user example_crypto example_db
      \<lparr>login_username = ''carol'', login_password = nul_password\<rparr> 20
     = Inl login_exception"
    by (simp add: login_user_def example_db_def alice_def bob_def)
  have 3: "length nul_password = 7"
    by (simp add: nul_password_def)
  from 1 2 3 show ?thesis by simp
qed

text \<open>
  When exactly one user matches the requested username or email the handler raises the
  400 \<open>conflict_exception\<close>; whenever some user matches, the store is handed back as it
  was.
\<close>

lemma register_user_one_match:
  assumes "filter (\<lambda>u. user_username u = reg_username user_in
                           \<or> user_email u = reg_email user_in) (users d) = [x]"
  shows "register_user cr d user_in salt now = (Inl conflict_exception, d)"
  by (simp add: register_user_def register_user_at_def assms)

lemma register_user_taken:
  assumes "\<exists>u\<in>set (users d). user_username u = reg_username user_in
                              \<or> user_email u = reg_email user_in"
  shows "(register_user cr d user_in salt now = (Inl conflict_exception, d)
          \<or> register_user cr d user_in salt now = (Inl MultipleResultsFound, d))"
proof -
  let ?q = "filter (\<lambda>u. user_username u = reg_username user_in
                           \<or> user_email u = reg_email user_in) (users d)"
  from assms have "?q \<noteq> []"
    by (simp add: filter_empty_conv)
  then show ?thesis
    by (cases ?q rule: scalar_one_or_none.cases)
      (simp_all add: register_user_def register_user_at_def)
qed

text \<open>
  C6. The existence query of \<open>register_user\<close> asks for at most one row. When one
  user holds the requested username and another one the requested email, two rows
  match: the query raises \<open>MultipleResultsFound\<close>, which no handler catches, in place
  of the 400 \<open>conflict_exception\<close>. The store is unchanged.
\<close>

theorem register_user_two_matches:
  "register_user example_crypto example_db
      \<lparr>reg_username = ''alice'', reg_email = ''b@x.com'', reg_password = ''secret9''\<rparr>
      ''s9'' 15
    = (Inl MultipleResultsFound, example_db)
   \<and> MultipleResultsFound \<noteq> conflict_exception"
  by (simp add: register_user_def register_user_at_def example_db_def alice_def bob_def
      conflict_exception_def)

section \<open>A registration committed in between\<close>

text \<open>
  C7 as stated fails: the existence query saw an empty store, \<open>alice\<close> and \<open>bob\<close>
  were committed before this request's insert, and the insert of a second \<open>alice\<close> is
  refused by the store. The handler raises the store's \<open>IntegrityError\<close>, not the
  \<open>conflict_exception\<close> of the pre-check.
\<close>

theorem commit_violation_counterexample:
  "register_user_at example_crypto empty_db example_db
      \<lparr>reg_username = ''alice'', reg_email = ''a2@x.com'', reg_password = ''secret9''\<rparr>
      ''s9'' 15
    = (Inl IntegrityError, example_db\<lparr>users_id_seq := 3\<rparr>)
   \<and> IntegrityError \<noteq> conflict_exception"
  by (simp add: register_user_at_def get_password_hash_def insert_user_def Let_def
      empty_db_def example_db_def alice_def bob_def conflict_exception_def)

text \<open>
  C7, amended. When the existence query finds no match and the password is hashed (it
  holds no NUL byte), so that the insert is reached, but the store at commit time
  holds a user with the requested username or email, \<open>register_user\<close> does not catch
  the violation: the result is the store's \<open>IntegrityError\<close> (a server error, not the
  400 of the pre-check path), and neither table changes.
\<close>

theorem commit_violation_unhandled:
  assumes "\<forall>u\<in>set (users seen). user_username u \<noteq> reg_username user_in
                                 \<and> user_email u \<noteq> reg_email user_in"
    and "\<exists>u\<in>set (users d). user_username u = reg_username user_in
                              \<or> user_email u = reg_email user_in"
    and "CHR 0x00 \<notin> set (reg_password user_in)"
  shows "\<exists>d'. register_user_at cr seen d user_in salt now = (Inl IntegrityError, d')
    \<and> users d' = users d \<and> tasks d' = tasks d
    \<and> IntegrityError \<noteq> conflict_exception"
proof -
  from assms(1)
  have q: "filter (\<lambda>u. user_username u = reg_username user_in
                           \<or> user_email u = reg_email user_in) (users seen) = []"
    by (simp add: filter_empty_conv)
  from assms(2)
  have "list_ex (\<lambda>u. user_id u = users_id_seq d + 1
                      \<or> user_username u = reg_username user_in
                      \<or> user_email u = reg_email user_in) (users d)"
    by (auto simp: list_ex_iff)
  then have ins: "insert_user d (reg_username user_in) (reg_email user_in)
                  (salt, bcrypt cr salt (reg_password user_in)) now
                = (Inl IntegrityError, d\<lparr>users_id_seq := users_id_seq d + 1\<rparr>)"
    by (simp add: insert_user_def Let_def)
  from assms(3)
  have h: "get_password_hash cr salt (reg_password user_in)
             = Inr (salt, bcrypt cr salt (reg_password user_in))"
    by (simp add: get_password_hash_def)
  have "register_user_at cr seen d user_in salt now
          = (Inl IntegrityError, d\<lparr>users_id_seq := users_id_seq d + 1\<rparr>)"
    by (simp add: register_user_at_def q h ins)
  then show ?thesis
    by (simp add: conflict_exception_def)
qed

theorem commit_violation_unhandled_witness:
  "(\<exists>d'. register_user_at example_crypto empty_db example_db
      \<lparr>reg_username = ''alice'', reg_email = ''a2@x.com'', reg_password = ''secret9''\<rparr>
      ''s9'' 15 = (Inl IntegrityError, d')
    \<and> users d' = [alice, bob] \<and> tasks d' = [milk])"
proof -
  have h1: "\<forall>u\<in>set (users empty_db).
      user_username u \<noteq> reg_username
        \<lparr>reg_username = ''alice'', reg_email = ''a2@x.com'', reg_password = ''secret9''\<rparr>
      \<and> user_email u \<noteq> reg_email
        \<lparr>reg_username = ''alice'', reg_email = ''a2@x.com'', reg_password = ''secret9''\<rparr>"
    by (simp add: empty_db_def)
  have h2: "\<exists>u\<in>set (users example_db).
      user_username u = reg_username
        \<lparr>reg_username = ''alice'', reg_email = ''a2@x.com'', reg_password = ''secret9''\<rparr>
      \<or> user_email u = reg_email
        \<lparr>reg_username = ''alice'', reg_email = ''a2@x.com'', reg_password = ''secret9''\<rparr>"
    by (simp add: example_db_def alice_def)
  have e: "users example_db = [alice, bob]" "tasks example_db = [milk]"
    by (simp_all add: example_db_def)
  have h3: "CHR 0x00 \<notin> set (reg_password
        \<lparr>reg_username = ''alice'', reg_email = ''a2@x.com'', reg_password = ''secret9''\<rparr>)"
    by simp
  from commit_violation_unhandled [OF h1 h2 h3, of example_crypto "''s9''" 15]
  show ?thesis
    unfolding e by blast
qed

section \<open>Updating a task\<close>











section \<open>The schema is kept\<close>

text \<open>
  The stores the handlers reach from the empty one satisfy \<open>db_ok\<close>: the empty store
  does, and each handler that writes hands back a store that does, \<open>create_task\<close> as
  long as the next value of the task sequence is a value of the key column.
\<close>

lemma db_ok_empty: "db_ok empty_db"
  by (simp add: db_ok_def empty_db_def)

lemma db_ok_register_user:
  assumes "db_ok d"
  shows "db_ok (snd (register_user cr d user_in salt now))"
proof (cases "\<forall>u\<in>set (users d). user_username u \<noteq> reg_username user_in
                              \<and> user_email u \<noteq> reg_email user_in")
  case True
  show ?thesis
  proof (cases "CHR 0x00 \<in> set (reg_password user_in)")
    case nul: True
    from True
    have "filter (\<lambda>u. user_username u = reg_username user_in
                           \<or> user_email u = reg_email user_in) (users d) = []"
      by (simp add: filter_empty_conv)
    with nul assms show ?thesis
      by (simp add: register_user_def register_user_at_def get_password_hash_def)
  next
    case False
    from db_ok_add_user [OF assms True] show ?thesis
      by (simp add: register_user_fresh [OF assms True False])
  qed
next
  case False
  then have "\<exists>u\<in>set (users d). user_username u = reg_username user_in
                              \<or> user_email u = reg_email user_in"
    by blast
  from register_user_taken [OF this, of cr salt now] assms show ?thesis
    by auto
qed

lemma db_ok_create_task:
  assumes "db_ok d" and "in_int32 (tasks_id_seq d + 1)"
  shows "db_ok (snd (create_task cr d now tok task_in))"
proof (cases "get_current_user cr d now tok")
  case (Inl e)
  with assms show ?thesis by (simp add: create_task_def)
next
  case (Inr u)
  from assms(1) have le: "\<forall>r\<in>set (tasks d). task_id r \<le> tasks_id_seq d"
    by (simp add: db_ok_def list_all_iff)
  then have fresh: "tasks_id_seq d + 1 \<notin> task_id ` set (tasks d)"
    by auto
  from le have le': "\<forall>r\<in>set (tasks d). task_id r \<le> tasks_id_seq d + 1"
    by auto
  have bump: "db_ok (d\<lparr>tasks_id_seq := tasks_id_seq d + 1\<rparr>)"
    using assms(1) le' by (simp add: db_ok_def list_all_iff)
  have add: "db_ok (d\<lparr>tasks_id_seq := tasks_id_seq d + 1, tasks := tasks d @ [t]\<rparr>)"
    if "task_id t = tasks_id_seq d + 1" for t
    using assms le' fresh that by (simp add: db_ok_def list_all_iff)
  show ?thesis
    using bump add assms(1)
    by (simp add: create_task_def Inr insert_task_def Let_def)
qed

lemma task_ids_replace_task:
  "map task_id (tasks (replace_task t' d)) = map task_id (tasks d)"
  by (simp add: replace_task_def comp_def if_distrib [of task_id] cong: if_cong)

lemma db_ok_replace_task:
  assumes "db_ok d"
  shows "db_ok (replace_task t' d)"
proof -
  have ids: "map task_id (tasks (replace_task t' d)) = map task_id (tasks d)"
    by (rule task_ids_replace_task)
  have rest: "users (replace_task t' d) = users d"
    "users_id_seq (replace_task t' d) = users_id_seq d"
    "tasks_id_seq (replace_task t' d) = tasks_id_seq d"
    by (simp_all add: replace_task_def)
  have "list_all (\<lambda>t. P (task_id t)) (tasks (replace_task t' d))
          = list_all (\<lambda>t. P (task_id t)) (tasks d)" for P
  proof -
    have "list_all (\<lambda>t. P (task_id t)) (tasks (replace_task t' d))
          = list_all P (map task_id (tasks (replace_task t' d)))"
      by (simp add: list_all_iff)
    also have "\<dots> = list_all P (map task_id (tasks d))"
      by (simp only: ids)
    also have "\<dots> = list_all (\<lambda>t. P (task_id t)) (tasks d)"
      by (simp add: list_all_iff)
    finally show ?thesis .
  qed
  from this [of "\<lambda>i. i \<le> tasks_id_seq d"] this [of in_int32] assms show ?thesis
    by (simp add: db_ok_def ids rest)
qed

lemma db_ok_update_task:
  assumes "db_ok d"
  shows "db_ok (snd (update_task cr d now tok tid task_in))"
proof (cases "get_current_user cr d now tok")
  case (Inl e)
  with assms show ?thesis by (simp add: update_task_def)
next
  case u: (Inr u)
  show ?thesis
  proof (cases "owned_task d tid u")
    case (Inl e)
    with assms u show ?thesis by (simp add: update_task_def)
  next
    case o: (Inr found)
    show ?thesis
    proof (cases found)
      case None
      with assms u o show ?thesis by (simp add: update_task_def)
    next
      case (Some task)
      show ?thesis
      proof (cases "flush_task task (setattrs task_in task) now")
        case (Inl e)
        with assms u o Some show ?thesis by (simp add: update_task_def)
      next
        case (Inr task')
        with db_ok_replace_task [OF assms, of task'] u o Some show ?thesis
          by (simp add: update_task_def)
      qed
    qed
  qed
qed

lemma db_ok_remove_task:
  assumes "db_ok d"
  shows "db_ok (remove_task t d)"
  using assms by (simp add: db_ok_def remove_task_def distinct_map_filter list_all_iff)

lemma db_ok_delete_task:
  assumes "db_ok d"
  shows "db_ok (snd (delete_task cr d now tok tid))"
proof (cases "get_current_user cr d now tok")
  case (Inl e)
  with assms show ?thesis by (simp add: delete_task_def)
next
  case u: (Inr u)
  show ?thesis
  proof (cases "owned_task d tid u")
    case (Inl e)
    with assms u show ?thesis by (simp add: delete_task_def)
  next
    case o: (Inr found)
    with db_ok_remove_task [OF assms] assms u show ?thesis
      by (cases found) (simp_all add: delete_task_def)
  qed
qed

end
